theory Spec2Isabelle
  imports Complex_Main "HOL-Library.AList"
begin

section \<open>Python values\<close>

text \<open>
  A message is a JSON document as Python's \<^verbatim>\<open>json\<close> module decodes it: a \<^verbatim>\<open>dict\<close> with
  string keys whose values are \<^verbatim>\<open>None\<close>, booleans, integers, strings, lists or further
  dicts. A dict is an association list in insertion order with \<open>map_of\<close> as lookup;
  \<open>AList.update\<close> is Python's \<^verbatim>\<open>d[k] = v\<close> (overwrite in place, or append a new key at
  the end). Floating-point numbers are left out of the value type.
\<close>

datatype pyval =
    PNone
  | PBool bool
  | PInt int
  | PStr string
  | PList "pyval list"
  | PDict "(string \<times> pyval) list"

type_synonym dict = "(string \<times> pyval) list"

text \<open>Python's truth value of an object, as \<^verbatim>\<open>if jsep:\<close> and \<^verbatim>\<open>if plugins:\<close> test it.\<close>

fun truthy :: "pyval \<Rightarrow> bool" where
  "truthy PNone = False"
| "truthy (PBool b) = b"
| "truthy (PInt i) = (i \<noteq> 0)"
| "truthy (PStr s) = (s \<noteq> [])"
| "truthy (PList xs) = (xs \<noteq> [])"
| "truthy (PDict d) = (d \<noteq> [])"

text \<open>
  The conditions a call can end with: the four error kinds of section 7 of the
  specification, and the Python exceptions the client's own code can raise.
\<close>

datatype error =
    Timeout
  | TransportClosed
  | MalformedMessage
  | DuplicateTransactionId
  | AttributeError string
  | KeyError string
  | TypeError
  | RecursionError

section \<open>The structural subset test\<close>

text \<open>
  Modelled from the spec: \<^verbatim>\<open>is_subset\<close> is imported from \<^verbatim>\<open>message_transaction\<close>, which
  is not among the source files. Section 4.1 of the specification gives its contract
  \<^verbatim>\<open>matches(candidate, pattern)\<close>: every key of the pattern must exist in the candidate;
  a pattern value \<^verbatim>\<open>None\<close> only asks for the key; a nested document recurses and needs
  a document on the candidate's side; a nested sequence needs a sequence at least as
  long and is tested position by position over the pattern's positions; anything else
  must be equal in type and value.
\<close>

fun is_subset :: "dict \<Rightarrow> dict \<Rightarrow> bool"
  and value_matches :: "pyval \<Rightarrow> pyval \<Rightarrow> bool"
  and sequence_matches :: "pyval list \<Rightarrow> pyval list \<Rightarrow> bool"
where
  "is_subset candidate [] = True"
| "is_subset candidate ((key, pv) # pattern) =
     (case map_of candidate key of
        None \<Rightarrow> False
      | Some cv \<Rightarrow> value_matches cv pv \<and> is_subset candidate pattern)"
| "value_matches cv PNone = True"
| "value_matches cv (PDict pattern) =
     (case cv of PDict candidate \<Rightarrow> is_subset candidate pattern | _ \<Rightarrow> False)"
| "value_matches cv (PList ps) =
     (case cv of PList cs \<Rightarrow> sequence_matches cs ps | _ \<Rightarrow> False)"
| "value_matches cv (PBool b) = (cv = PBool b)"
| "value_matches cv (PInt i) = (cv = PInt i)"
| "value_matches cv (PStr s) = (cv = PStr s)"
| "sequence_matches cs [] = True"
| "sequence_matches [] (p # ps) = False"
| "sequence_matches (c # cs) (p # ps) = (value_matches c p \<and> sequence_matches cs ps)"

section \<open>The world a client runs in\<close>

text \<open>
  One record holds everything the client's methods read or change:
  \<^item> \<open>heap\<close>, \<open>next_addr\<close>: the dict objects of the caller, by address, so that
    \<^verbatim>\<open>full_message = message\<close> (an alias) and \<^verbatim>\<open>{**message, "jsep": jsep}\<close> (a new object)
    differ; addresses below \<open>next_addr\<close> are allocated;
  \<^item> \<open>uuids\<close>, \<open>drawn\<close>: the values \<^verbatim>\<open>uuid.uuid4().hex\<close> returns, in order, and how many
    have been drawn;
  \<^item> the transport's state: its \<open>base_url\<close>, the \<open>registry\<close> of open transactions (an
    id is mapped to the buffer of messages offered to it), the messages written to the
    \<open>wire\<close>, the messages that no transaction claimed, and the \<open>calls\<close> made on the
    transport in order (a log that nothing reads; a \<open>SendCall\<close> holds the message as it
    is when \<^verbatim>\<open>send\<close> is called);
  \<^item> the environment: the clock \<open>now\<close>, the \<open>inbound\<close> messages the server will
    deliver with their arrival times, in arrival order, and the time the connection
    drops, if it does.
\<close>

type_synonym addr = nat
type_synonym tid = pyval
type_synonym time = rat

datatype call = SendCall dict | GetCall tid "time option" | DoneCall tid

record world =
  heap :: "addr \<Rightarrow> dict"
  next_addr :: addr
  uuids :: "nat \<Rightarrow> string"
  drawn :: nat
  base_url :: string
  registry :: "tid \<rightharpoonup> dict list"
  wire :: "dict list"
  unclaimed :: "dict list"
  calls :: "call list"
  now :: time
  inbound :: "(time \<times> dict) list"
  closes_at :: "time option"

definition alloc :: "dict \<Rightarrow> world \<Rightarrow> addr \<times> world" where
  "alloc d w = (next_addr w, w\<lparr>heap := (heap w)(next_addr w := d), next_addr := Suc (next_addr w)\<rparr>)"

definition setitem :: "addr \<Rightarrow> string \<Rightarrow> pyval \<Rightarrow> world \<Rightarrow> world" where
  "setitem a key v w = w\<lparr>heap := (heap w)(a := AList.update key v (heap w a))\<rparr>"

definition uuid4_hex :: "world \<Rightarrow> string \<times> world" where
  "uuid4_hex w = (uuids w (drawn w), w\<lparr>drawn := Suc (drawn w)\<rparr>)"

section \<open>The transport and its transactions\<close>

text \<open>
  \<^verbatim>\<open>JanusTransport\<close> and its message transactions (\<^verbatim>\<open>transport.py\<close>,
  \<^verbatim>\<open>message_transaction.py\<close>) are not among the source files; the client only calls
  \<^verbatim>\<open>send\<close>, \<^verbatim>\<open>get\<close> and \<^verbatim>\<open>done\<close>. The definitions of this section follow sections 4.2 to
  4.4, 5 and 7 of the specification. A transaction is open exactly while the registry
  maps its id; the handle that \<^verbatim>\<open>send\<close> returns is that id.
\<close>

text \<open>
  Modelled from the spec: \<^verbatim>\<open>JanusTransport.send\<close>, which is not among the source files
  (section 4.4). It reuses the transaction id of the outbound message or assigns a
  fresh one into it, registers an open transaction for the id, writes the message to
  the wire and returns the handle. The id is assigned into the message object that
  \<^verbatim>\<open>send\<close> is handed, so a caller that passes its own dict finds the key
  \<^verbatim>\<open>transaction\<close> in it afterwards.
\<close>

definition transport_send :: "addr \<Rightarrow> world \<Rightarrow> tid \<times> world" where
  "transport_send message w =
     (let m = heap w message;
          w0 = w\<lparr>calls := calls w @ [SendCall m]\<rparr>
      in case map_of m ''transaction'' of
           Some t \<Rightarrow>
             (t, w0\<lparr>registry := (case registry w0 t of
                                    None \<Rightarrow> (registry w0)(t \<mapsto> [])
                                  | Some buf \<Rightarrow> registry w0),
                    wire := wire w0 @ [m]\<rparr>)
         | None \<Rightarrow>
             (let (u, w1) = uuid4_hex w0;
                  w2 = setitem message ''transaction'' (PStr u) w1
              in (PStr u, w2\<lparr>registry := (registry w2)(PStr u \<mapsto> []),
                              wire := wire w2 @ [heap w2 message]\<rparr>)))"

text \<open>
  Modelled from the spec: \<^verbatim>\<open>offer\<close> of a message transaction, which is not among the
  source files (section 4.2). It appends a message to the buffer of an open
  transaction and says whether the message was accepted; correlation at offer time is
  by transaction id alone.
\<close>

definition offer :: "tid \<Rightarrow> dict \<Rightarrow> world \<Rightarrow> bool \<times> world" where
  "offer t message w =
     (case registry w t of
        None \<Rightarrow> (False, w)
      | Some buf \<Rightarrow> (True, w\<lparr>registry := (registry w)(t \<mapsto> buf @ [message])\<rparr>))"

text \<open>
  Modelled from the spec: one step of the transport's inbound pump, which is not among
  the source files (section 4.3). A message goes to the open transaction of its id,
  and to the fallback handler when it has no id or no transaction takes it.
\<close>

definition dispatch :: "dict \<Rightarrow> world \<Rightarrow> world" where
  "dispatch message w =
     (case map_of message ''transaction'' of
        None \<Rightarrow> w\<lparr>unclaimed := unclaimed w @ [message]\<rparr>
      | Some t \<Rightarrow>
          (let (accepted, w') = offer t message w
           in if accepted then w' else w'\<lparr>unclaimed := unclaimed w' @ [message]\<rparr>))"

text \<open>
  Modelled from the spec: the buffer that \<^verbatim>\<open>get\<close> reads, which is not among the source
  files (section 4.2): \<open>take_first\<close> gives the oldest element that satisfies a predicate
  and the list without it, \<open>buffer_of\<close> the messages buffered for a transaction id
  (none for a transaction that is not open).
\<close>

fun take_first :: "('a \<Rightarrow> bool) \<Rightarrow> 'a list \<Rightarrow> ('a \<times> 'a list) option" where
  "take_first P [] = None"
| "take_first P (x # xs) =
     (if P x then Some (x, xs)
      else (case take_first P xs of None \<Rightarrow> None | Some (y, ys) \<Rightarrow> Some (y, x # ys)))"

definition buffer_of :: "tid \<Rightarrow> world \<Rightarrow> dict list" where
  "buffer_of t w = (case registry w t of None \<Rightarrow> [] | Some buf \<Rightarrow> buf)"

text \<open>
  Modelled from the spec: the end of a wait in \<^verbatim>\<open>get\<close>, which is not among the source
  files (sections 4.2, 5 and 7). \<open>in_time\<close> says that a message arrives before the wait
  is over: no later than the deadline and no later than the moment the connection
  drops. \<open>give_up\<close> is the end of a wait that found nothing. With a timeout the call
  fails with \<open>Timeout\<close> at the deadline (section 4.2: it fails with \<open>Timeout\<close> if no
  qualifying message arrives within the timeout). Without one the wait is bounded only
  by the transport's own lifetime (section 4.2): it ends with \<open>TransportClosed\<close> when
  the connection drops (sections 5 and 7), and the call never returns (the result
  \<open>None\<close>) when it does not.
\<close>

definition in_time :: "time \<Rightarrow> time option \<Rightarrow> time option \<Rightarrow> bool" where
  "in_time t deadline closing =
     ((case deadline of None \<Rightarrow> True | Some d \<Rightarrow> t \<le> d) \<and>
      (case closing of None \<Rightarrow> True | Some c \<Rightarrow> t \<le> c))"

definition give_up :: "time option \<Rightarrow> world \<Rightarrow> (error + dict) option \<times> world" where
  "give_up deadline w =
     (case deadline of
        Some d \<Rightarrow> (Some (Inl Timeout), w\<lparr>now := max (now w) d\<rparr>)
      | None \<Rightarrow>
          (case closes_at w of
             None \<Rightarrow> (None, w)
           | Some c \<Rightarrow> (Some (Inl TransportClosed), w\<lparr>now := max (now w) c\<rparr>)))"

text \<open>
  Modelled from the spec: \<^verbatim>\<open>get\<close> of a message transaction, which is not among the source
  files (sections 4.2 and 5). It suspends until a buffered message satisfies the
  matcher, then removes and returns the oldest such message. The result is \<open>None\<close>
  when the call never returns, \<open>Some (Inl e)\<close> when it raises \<open>e\<close> and \<open>Some (Inr m)\<close>
  when it returns \<open>m\<close>. \<open>await_match\<close> is the wait: while nothing buffered qualifies,
  the pump delivers the next inbound message, if it arrives in time. The deadline is
  the timeout counted from the moment of the call.
\<close>

fun await_match ::
  "tid \<Rightarrow> (dict \<Rightarrow> bool) \<Rightarrow> time option \<Rightarrow> (time \<times> dict) list \<Rightarrow> world
     \<Rightarrow> (error + dict) option \<times> world"
where
  "await_match t matcher deadline [] w =
     (case take_first matcher (buffer_of t w) of
        Some (m, rest) \<Rightarrow> (Some (Inr m), w\<lparr>registry := (registry w)(t \<mapsto> rest), inbound := []\<rparr>)
      | None \<Rightarrow> give_up deadline (w\<lparr>inbound := []\<rparr>))"
| "await_match t matcher deadline ((arrival, message) # later) w =
     (case take_first matcher (buffer_of t w) of
        Some (m, rest) \<Rightarrow>
          (Some (Inr m), w\<lparr>registry := (registry w)(t \<mapsto> rest), inbound := (arrival, message) # later\<rparr>)
      | None \<Rightarrow>
          if in_time arrival deadline (closes_at w)
          then await_match t matcher deadline later
                 (dispatch message (w\<lparr>now := max (now w) arrival, inbound := later\<rparr>))
          else give_up deadline (w\<lparr>inbound := (arrival, message) # later\<rparr>))"

definition get :: "tid \<Rightarrow> (dict \<Rightarrow> bool) \<Rightarrow> time option \<Rightarrow> world \<Rightarrow> (error + dict) option \<times> world" where
  "get t matcher timeout w =
     await_match t matcher (map_option (\<lambda>d. now w + d) timeout) (inbound w)
       (w\<lparr>calls := calls w @ [GetCall t timeout]\<rparr>)"

text \<open>
  Modelled from the spec: \<^verbatim>\<open>done\<close> of a message transaction, which is not among the
  source files (section 4.2). It closes the transaction: the id is taken out of the
  registry and the buffer is dropped; doing so twice changes nothing more.
\<close>

definition done_transaction :: "tid \<Rightarrow> world \<Rightarrow> world" where
  "done_transaction t w = w\<lparr>registry := (registry w)(t := None), calls := calls w @ [DoneCall t]\<rparr>"

section \<open>The admin/monitor client\<close>

text \<open>
  \<^verbatim>\<open>JanusAdminMonitorClient\<close> of \<^verbatim>\<open>admin_monitor.py\<close>. An instance holds its admin secret;
  its transport is the one of the world.
\<close>

record client =
  admin_secret :: string

text \<open>
  The matcher that \<^verbatim>\<open>send_wrapper\<close> builds for \<^verbatim>\<open>get\<close> (lines 69 to 79): a closure over the
  caller's \<^verbatim>\<open>matcher\<close>.
\<close>

definition function_matcher :: "dict \<Rightarrow> dict \<Rightarrow> bool" where
  "function_matcher matcher message =
     (is_subset message matcher \<or>
      is_subset message
        [(''janus'', PStr ''error''),
         (''error'', PDict [(''code'', PNone), (''reason'', PNone)])])"

text \<open>
  \<^verbatim>\<open>send_wrapper\<close> (lines 61 to 97). \<open>message\<close> is the address of the caller's dict. An
  exception of \<^verbatim>\<open>get\<close> leaves the method at line 91, and so does a \<^verbatim>\<open>get\<close> that never
  returns; only a returned response reaches \<^verbatim>\<open>done()\<close> at line 95.
\<close>

definition send_wrapper ::
  "client \<Rightarrow> addr \<Rightarrow> dict \<Rightarrow> pyval \<Rightarrow> time option \<Rightarrow> bool \<Rightarrow> world \<Rightarrow> (error + dict) option \<times> world"
where
  "send_wrapper self message matcher jsep timeout authorize w =
     (let (full_message, w1) =
            (if truthy jsep then alloc (AList.update ''jsep'' jsep (heap w message)) w
             else (message, w));
          w2 = (if authorize then setitem full_message ''admin_secret'' (PStr (admin_secret self)) w1
                else w1);
          (message_transaction, w3) = transport_send full_message w2;
          (response, w4) = get message_transaction (function_matcher matcher) timeout w3
      in case response of
           None \<Rightarrow> (None, w4)
         | Some (Inl e) \<Rightarrow> (Some (Inl e), w4)
         | Some (Inr r) \<Rightarrow> (Some (Inr r), done_transaction message_transaction w4))"

text \<open>The defaults of \<^verbatim>\<open>send_wrapper\<close>'s keyword parameters (lines 64 to 67).\<close>

definition default_matcher :: dict where
  "default_matcher = []"

definition default_jsep :: pyval where
  "default_jsep = PDict []"

definition default_timeout :: "time option" where
  "default_timeout = Some 15"

definition default_authorize :: bool where
  "default_authorize = True"

text \<open>\<^verbatim>\<open>ping\<close> (lines 99 to 105): the message is a new dict, \<^verbatim>\<open>jsep\<close> and \<^verbatim>\<open>timeout\<close> are left to their defaults.\<close>

definition ping :: "client \<Rightarrow> world \<Rightarrow> (error + dict) option \<times> world" where
  "ping self w =
     (let (message, w1) = alloc [(''janus'', PStr ''ping'')] w
      in send_wrapper self message [(''janus'', PStr ''pong'')] default_jsep default_timeout False w1)"

section \<open>The token methods\<close>

text \<open>
  The names an attribute lookup on an instance finds: the two instance attributes that
  \<^verbatim>\<open>__init__\<close> sets (their names mangled by the class), the names bound in the class
  body (lines 31 to 288) and the names every object inherits. The class defines neither
  \<^verbatim>\<open>__getattr__\<close> nor \<^verbatim>\<open>__getattribute__\<close>, so any other name raises \<^verbatim>\<open>AttributeError\<close>.
\<close>

definition instance_attributes :: "string list" where
  "instance_attributes =
     [''_JanusAdminMonitorClient__transport'', ''_JanusAdminMonitorClient__admin_secret'']"

definition class_attributes :: "string list" where
  "class_attributes =
     [''__annotations__'', ''__init__'', ''__str__'', ''connect'', ''disconnect'',
      ''send_wrapper'', ''ping'', ''info'', ''loops_info'', ''get_settings'',
      ''set_session_timeout'', ''set_log_level'', ''set_log_timestamps'', ''set_log_colors'',
      ''set_locking_debug'', ''set_refcount_debug'', ''set_libnice_debug'',
      ''set_min_nack_queue'', ''set_no_media_timer'', ''add_token'', ''allow_token'',
      ''disallow_token'', ''list_tokens'', ''remove_token'',
      ''__module__'', ''__dict__'', ''__weakref__'', ''__doc__'']"

definition object_attributes :: "string list" where
  "object_attributes =
     [''__class__'', ''__delattr__'', ''__dir__'', ''__doc__'', ''__eq__'', ''__format__'',
      ''__ge__'', ''__getattribute__'', ''__getstate__'', ''__gt__'', ''__hash__'',
      ''__init__'', ''__init_subclass__'', ''__le__'', ''__lt__'', ''__ne__'', ''__new__'',
      ''__reduce__'', ''__reduce_ex__'', ''__repr__'', ''__setattr__'', ''__sizeof__'',
      ''__str__'', ''__subclasshook__'']"

definition getattr_self :: "string \<Rightarrow> error + string" where
  "getattr_self name =
     (if name \<in> set (instance_attributes @ class_attributes @ object_attributes)
      then Inr name else Inl (AttributeError name))"

text \<open>
  \<^verbatim>\<open>await self.send(payload)\<close>: the attribute is looked up first. \<open>invoke\<close> stands for what
  calling a found attribute with the payload and awaiting the result would do.
\<close>

type_synonym invoke = "string \<Rightarrow> dict \<Rightarrow> world \<Rightarrow> (error + pyval) option \<times> world"

definition self_send :: "invoke \<Rightarrow> dict \<Rightarrow> world \<Rightarrow> (error + pyval) option \<times> world" where
  "self_send invoke payload w =
     (case getattr_self ''send'' of
        Inl e \<Rightarrow> (Some (Inl e), w)
      | Inr found \<Rightarrow> invoke found payload w)"

text \<open>
  The module's state after import: the default of \<^verbatim>\<open>add_token\<close>'s parameter \<^verbatim>\<open>token\<close> is
  the value of \<^verbatim>\<open>uuid.uuid4().hex\<close> at the time the \<^verbatim>\<open>def\<close> statement of line 252 runs,
  kept in the function object.
\<close>

record admin_monitor_module =
  add_token_default_token :: string

definition import_admin_monitor :: "world \<Rightarrow> admin_monitor_module \<times> world" where
  "import_admin_monitor w =
     (let (u, w') = uuid4_hex w in (\<lparr>add_token_default_token = u\<rparr>, w'))"

text \<open>
  \<^verbatim>\<open>add_token\<close> (lines 252 to 256). An omitted argument is \<open>None\<close>; \<open>add_token_payload\<close> is
  the payload of lines 253 to 255.
\<close>

definition add_token_payload :: "admin_monitor_module \<Rightarrow> string option \<Rightarrow> pyval option \<Rightarrow> dict" where
  "add_token_payload md token plugins =
     (let token' = (case token of None \<Rightarrow> add_token_default_token md | Some t \<Rightarrow> t);
          plugins' = (case plugins of None \<Rightarrow> PList [] | Some p \<Rightarrow> p);
          payload = [(''janus'', PStr ''add_token''), (''token'', PStr token')]
      in if truthy plugins' then AList.update ''plugins'' plugins' payload else payload)"

definition add_token ::
  "admin_monitor_module \<Rightarrow> client \<Rightarrow> string option \<Rightarrow> pyval option \<Rightarrow> invoke \<Rightarrow> world
     \<Rightarrow> (error + pyval) option \<times> world"
where
  "add_token md self token plugins invoke w =
     self_send invoke (add_token_payload md token plugins) w"

text \<open>
  \<^verbatim>\<open>allow_token\<close>, \<^verbatim>\<open>disallow_token\<close>, \<^verbatim>\<open>list_tokens\<close> and \<^verbatim>\<open>remove_token\<close> (lines 258 to 288).
  \<open>getitem\<close> is the subscript \<^verbatim>\<open>r[key]\<close> of line 281.
\<close>

fun getitem :: "pyval \<Rightarrow> string \<Rightarrow> error + pyval" where
  "getitem (PDict d) key = (case map_of d key of None \<Rightarrow> Inl (KeyError key) | Some v \<Rightarrow> Inr v)"
| "getitem v key = Inl TypeError"

definition allow_token ::
  "client \<Rightarrow> string \<Rightarrow> pyval \<Rightarrow> invoke \<Rightarrow> world \<Rightarrow> (error + pyval) option \<times> world"
where
  "allow_token self token plugins invoke w =
     self_send invoke
       [(''janus'', PStr ''allow_token''), (''token'', PStr token), (''plugins'', plugins)] w"

definition disallow_token ::
  "client \<Rightarrow> string \<Rightarrow> pyval \<Rightarrow> invoke \<Rightarrow> world \<Rightarrow> (error + pyval) option \<times> world"
where
  "disallow_token self token plugins invoke w =
     self_send invoke
       [(''janus'', PStr ''disallow_token''), (''token'', PStr token), (''plugins'', plugins)] w"

definition list_tokens :: "client \<Rightarrow> invoke \<Rightarrow> world \<Rightarrow> (error + pyval) option \<times> world" where
  "list_tokens self invoke w =
     (let (result, w') = self_send invoke [(''janus'', PStr ''list_tokens'')] w
      in case result of
           None \<Rightarrow> (None, w')
         | Some (Inl e) \<Rightarrow> (Some (Inl e), w')
         | Some (Inr r) \<Rightarrow>
             (case getitem r ''data'' of
                Inl e \<Rightarrow> (Some (Inl e), w')
              | Inr d \<Rightarrow> (Some (getitem d ''tokens''), w')))"

definition remove_token ::
  "client \<Rightarrow> string \<Rightarrow> invoke \<Rightarrow> world \<Rightarrow> (error + pyval) option \<times> world"
where
  "remove_token self token invoke w =
     self_send invoke [(''janus'', PStr ''remove_token''), (''token'', PStr token)] w"

section \<open>The string form of a client\<close>

text \<open>
  \<^verbatim>\<open>__str__\<close> (lines 50 and 51). The f-string first reads \<^verbatim>\<open>self.__transport.base_url\<close>,
  then formats \<^verbatim>\<open>self\<close>, which calls \<^verbatim>\<open>__str__\<close> of the same object again. The first
  argument is the number of frames left below the interpreter's recursion limit; with
  none left the call raises \<^verbatim>\<open>RecursionError\<close>.
\<close>

fun client_str :: "nat \<Rightarrow> world \<Rightarrow> client \<Rightarrow> error + string" where
  "client_str 0 w self = Inl RecursionError"
| "client_str (Suc frames) w self =
     (let url = base_url w
      in case client_str frames w self of
           Inl e \<Rightarrow> Inl e
         | Inr s \<Rightarrow> Inr (''Admin/Monitor ('' @ url @ '') '' @ s))"

section \<open>An example client and example worlds\<close>

text \<open>
  A client and a world to run the definitions on: the caller's dict
  \<^verbatim>\<open>{"janus": "loops_info"}\<close> at address 0, no open transaction, the next transaction id
  \<^verbatim>\<open>"t1"\<close>, a connection that stays open, and the given inbound messages.
\<close>

definition example_client :: client where
  "example_client = \<lparr>admin_secret = ''janusoverlord''\<rparr>"

definition example_world :: "(time \<times> dict) list \<Rightarrow> world" where
  "example_world arrivals =
     \<lparr>heap = (\<lambda>a. [])(0 := [(''janus'', PStr ''loops_info'')]),
      next_addr = 1,
      uuids = (\<lambda>n. if n = 0 then ''t1'' else ''t2''),
      drawn = 0,
      base_url = ''ws://localhost:7188'',
      registry = Map.empty,
      wire = [],
      unclaimed = [],
      calls = [],
      now = 0,
      inbound = arrivals,
      closes_at = None\<rparr>"

section \<open>Facts about the subset test\<close>

lemma is_subset_depends_on_pattern_keys:
  "(\<And>k. k \<in> fst ` set p \<Longrightarrow> map_of m' k = map_of m k) \<Longrightarrow> is_subset m' p = is_subset m p"
proof (induction p)
  case Nil
  show ?case by simp
next
  case (Cons kv p)
  obtain k pv where kv: "kv = (k, pv)" by (cases kv)
  have here: "map_of m' k = map_of m k" using Cons.prems [of k] kv by simp
  have rest: "is_subset m' p = is_subset m p" using Cons.IH Cons.prems by simp
  show ?case by (simp add: kv here rest split: option.splits)
qed

lemma is_subset_missing_key:
  "k \<in> fst ` set p \<Longrightarrow> map_of m k = None \<Longrightarrow> \<not> is_subset m p"
proof (induction p)
  case Nil
  then show ?case by simp
next
  case (Cons kv p)
  obtain k' pv where kv: "kv = (k', pv)" by (cases kv)
  show ?case
  proof (cases "k' = k")
    case True
    then show ?thesis using Cons.prems kv by simp
  next
    case False
    then have "k \<in> fst ` set p" using Cons.prems kv by auto
    then have "\<not> is_subset m p" using Cons.IH Cons.prems by simp
    then show ?thesis by (simp add: kv split: option.splits)
  qed
qed

section \<open>Facts about the transport\<close>


lemma take_first_Some: "take_first P xs = Some (y, ys) \<Longrightarrow> P y \<and> y \<in> set xs"
  by (induction xs arbitrary: y ys) (auto split: if_splits option.splits)

lemma offer_fields:
  "closes_at (snd (offer t m w)) = closes_at w"
  "calls (snd (offer t m w)) = calls w"
  "heap (snd (offer t m w)) = heap w"
  "next_addr (snd (offer t m w)) = next_addr w"
  "drawn (snd (offer t m w)) = drawn w"
  "now (snd (offer t m w)) = now w"
  by (simp_all add: offer_def split: option.splits)

lemma dispatch_fields:
  "closes_at (dispatch m w) = closes_at w"
  "calls (dispatch m w) = calls w"
  "heap (dispatch m w) = heap w"
  "next_addr (dispatch m w) = next_addr w"
  "drawn (dispatch m w) = drawn w"
  by (simp_all add: dispatch_def offer_def split: option.splits)

lemma dispatch_registered:
  "(registry (dispatch m w) t = None) = (registry w t = None)"
  by (simp add: dispatch_def offer_def split: option.splits)

lemma buffer_of_dispatch:
  "buffer_of t (dispatch m w) =
     (if map_of m ''transaction'' = Some t \<and> registry w t \<noteq> None then buffer_of t w @ [m]
      else buffer_of t w)"
  by (auto simp add: buffer_of_def dispatch_def offer_def split: option.splits)

lemma buffer_of_update [simp]:
  "buffer_of t (w\<lparr>now := n\<rparr>) = buffer_of t w"
  "buffer_of t (w\<lparr>inbound := i\<rparr>) = buffer_of t w"
  "buffer_of t (w\<lparr>calls := c\<rparr>) = buffer_of t w"
  by (simp_all add: buffer_of_def)


lemma give_up_never_returns: "fst (give_up deadline w) \<noteq> Some (Inr m)"
  by (simp add: give_up_def split: option.splits)

lemma give_up_fields:
  "calls (snd (give_up deadline w)) = calls w"
  "heap (snd (give_up deadline w)) = heap w"
  "next_addr (snd (give_up deadline w)) = next_addr w"
  "registry (snd (give_up deadline w)) = registry w"
  "drawn (snd (give_up deadline w)) = drawn w"
  by (simp_all add: give_up_def split: option.splits)



lemma await_match_returns:
  "fst (await_match t P deadline evs w) = Some (Inr r) \<Longrightarrow>
     P r \<and> (r \<in> set (buffer_of t w) \<or>
            (\<exists>a. (a, r) \<in> set evs \<and> map_of r ''transaction'' = Some t \<and>
                 in_time a deadline (closes_at w)))"
proof (induction evs arbitrary: w)
  case Nil
  then show ?case
    by (auto split: option.splits simp add: give_up_never_returns dest: take_first_Some)
next
  case (Cons ev evs)
  obtain a m where ev: "ev = (a, m)" by (cases ev)
  show ?case
  proof (cases "take_first P (buffer_of t w)")
    case (Some found)
    obtain y ys where found: "found = (y, ys)" by (cases found)
    from Some found have "P y \<and> y \<in> set (buffer_of t w)" by (auto dest: take_first_Some)
    moreover from Some found Cons.prems ev have "r = y" by simp
    ultimately show ?thesis by simp
  next
    case None
    show ?thesis
    proof (cases "in_time a deadline (closes_at w)")
      case True
      let ?w = "dispatch m (w\<lparr>now := max (now w) a, inbound := evs\<rparr>)"
      from True None Cons.prems ev
      have "fst (await_match t P deadline evs ?w) = Some (Inr r)" by simp
      from Cons.IH [OF this]
      have P: "P r"
        and src: "r \<in> set (buffer_of t ?w) \<or>
            (\<exists>a. (a, r) \<in> set evs \<and> map_of r ''transaction'' = Some t \<and>
                 in_time a deadline (closes_at w))"
        by (simp_all add: dispatch_fields)
      from src show ?thesis
      proof
        assume "r \<in> set (buffer_of t ?w)"
        then have "r \<in> set (buffer_of t w) \<or> (r = m \<and> map_of m ''transaction'' = Some t)"
          by (auto simp add: buffer_of_dispatch split: if_splits)
        then show ?thesis using P True ev by auto
      next
        assume "\<exists>a. (a, r) \<in> set evs \<and> map_of r ''transaction'' = Some t \<and>
                 in_time a deadline (closes_at w)"
        then show ?thesis using P ev by auto
      qed
    next
      case False
      with None Cons.prems ev show ?thesis by (simp add: give_up_never_returns)
    qed
  qed
qed


lemma take_first_nonempty: "take_first P xs = Some found \<Longrightarrow> xs \<noteq> []"
  by (cases xs) simp_all

lemma buffer_of_nonempty: "buffer_of t w \<noteq> [] \<Longrightarrow> registry w t \<noteq> None"
  by (simp add: buffer_of_def split: option.splits)

lemma await_match_calls: "calls (snd (await_match t P deadline evs w)) = calls w"
proof (induction evs arbitrary: w)
  case Nil
  show ?case by (simp add: give_up_fields split: option.splits prod.splits)
next
  case (Cons ev evs)
  obtain a m where ev: "ev = (a, m)" by (cases ev)
  show ?case using Cons.IH
    by (simp add: ev give_up_fields dispatch_fields split: option.splits prod.splits)
qed

lemma await_match_heap: "heap (snd (await_match t P deadline evs w)) = heap w"
proof (induction evs arbitrary: w)
  case Nil
  show ?case by (simp add: give_up_fields split: option.splits prod.splits)
next
  case (Cons ev evs)
  obtain a m where ev: "ev = (a, m)" by (cases ev)
  show ?case using Cons.IH
    by (simp add: ev give_up_fields dispatch_fields split: option.splits prod.splits)
qed

lemma await_match_next_addr: "next_addr (snd (await_match t P deadline evs w)) = next_addr w"
proof (induction evs arbitrary: w)
  case Nil
  show ?case by (simp add: give_up_fields split: option.splits prod.splits)
next
  case (Cons ev evs)
  obtain a m where ev: "ev = (a, m)" by (cases ev)
  show ?case using Cons.IH
    by (simp add: ev give_up_fields dispatch_fields split: option.splits prod.splits)
qed

lemma await_match_drawn: "drawn (snd (await_match t P deadline evs w)) = drawn w"
proof (induction evs arbitrary: w)
  case Nil
  show ?case by (simp add: give_up_fields split: option.splits prod.splits)
next
  case (Cons ev evs)
  obtain a m where ev: "ev = (a, m)" by (cases ev)
  show ?case using Cons.IH
    by (simp add: ev give_up_fields dispatch_fields split: option.splits prod.splits)
qed

lemma await_match_registered:
  "(registry (snd (await_match t P deadline evs w)) t' = None) = (registry w t' = None)"
proof (induction evs arbitrary: w)
  case Nil
  show ?case
  proof (cases "take_first P (buffer_of t w)")
    case None
    then show ?thesis by (simp add: give_up_fields)
  next
    case (Some found)
    then have "registry w t \<noteq> None"
      by (blast dest: take_first_nonempty buffer_of_nonempty)
    with Some show ?thesis by (auto split: prod.splits)
  qed
next
  case (Cons ev evs)
  obtain a m where ev: "ev = (a, m)" by (cases ev)
  show ?case
  proof (cases "take_first P (buffer_of t w)")
    case None
    then show ?thesis using Cons.IH ev
      by (simp add: give_up_fields dispatch_registered)
  next
    case (Some found)
    then have "registry w t \<noteq> None"
      by (blast dest: take_first_nonempty buffer_of_nonempty)
    with Some ev show ?thesis by (auto split: prod.splits)
  qed
qed

lemma transport_send_handle:
  "fst (transport_send a w) =
     (case map_of (heap w a) ''transaction'' of Some t \<Rightarrow> t | None \<Rightarrow> PStr (uuids w (drawn w)))"
  by (simp add: transport_send_def uuid4_hex_def setitem_def Let_def split: option.splits)

lemma transport_send_heap:
  "heap (snd (transport_send a w)) =
     (case map_of (heap w a) ''transaction'' of
        Some t \<Rightarrow> heap w
      | None \<Rightarrow> (heap w)(a := AList.update ''transaction'' (PStr (uuids w (drawn w))) (heap w a)))"
  by (simp add: transport_send_def uuid4_hex_def setitem_def Let_def split: option.splits)

lemma transport_send_heap_elsewhere:
  "b \<noteq> a \<Longrightarrow> heap (snd (transport_send a w)) b = heap w b"
  by (simp add: transport_send_heap split: option.splits)

lemma transport_send_fields:
  "next_addr (snd (transport_send a w)) = next_addr w"
  "calls (snd (transport_send a w)) = calls w @ [SendCall (heap w a)]"
  "inbound (snd (transport_send a w)) = inbound w"
  "closes_at (snd (transport_send a w)) = closes_at w"
  "now (snd (transport_send a w)) = now w"
  by (simp_all add: transport_send_def uuid4_hex_def setitem_def Let_def split: option.splits)

lemma transport_send_registers:
  "registry (snd (transport_send a w)) (fst (transport_send a w)) \<noteq> None"
  by (simp add: transport_send_def uuid4_hex_def setitem_def Let_def split: option.splits)

lemma transport_send_fresh_buffer:
  "map_of (heap w a) ''transaction'' = None \<Longrightarrow>
     buffer_of (fst (transport_send a w)) (snd (transport_send a w)) = []"
  by (simp add: transport_send_def uuid4_hex_def setitem_def buffer_of_def Let_def)


lemma get_fields:
  "heap (snd (get t P timeout w)) = heap w"
  "next_addr (snd (get t P timeout w)) = next_addr w"
  "calls (snd (get t P timeout w)) = calls w @ [GetCall t timeout]"
  by (simp_all add: get_def await_match_heap await_match_next_addr await_match_calls)

lemma get_registered:
  "(registry (snd (get t P timeout w)) t' = None) = (registry w t' = None)"
  by (simp add: get_def await_match_registered)


section \<open>Facts about send_wrapper\<close>

lemma send_wrapper_unfold:
  "send_wrapper self message matcher jsep timeout authorize w =
     (let full = (if truthy jsep then next_addr w else message);
          w1 = (if truthy jsep then snd (alloc (AList.update ''jsep'' jsep (heap w message)) w) else w);
          w2 = (if authorize then setitem full ''admin_secret'' (PStr (admin_secret self)) w1 else w1);
          t = fst (transport_send full w2);
          g = get t (function_matcher matcher) timeout (snd (transport_send full w2))
      in (fst g, case fst g of Some (Inr r) \<Rightarrow> done_transaction t (snd g) | _ \<Rightarrow> snd g))"
  by (simp add: send_wrapper_def Let_def case_prod_beta alloc_def split: option.splits sum.splits)


lemma done_transaction_fields:
  "heap (done_transaction t w) = heap w"
  "next_addr (done_transaction t w) = next_addr w"
  "calls (done_transaction t w) = calls w @ [DoneCall t]"
  "registry (done_transaction t w) t = None"
  by (simp_all add: done_transaction_def)

text \<open>
  With a truthy \<^verbatim>\<open>jsep\<close> every write of a call goes to the new dict of line 83: to the
  caller's dict nothing is written.
\<close>

lemma send_wrapper_frame:
  assumes allocated: "message < next_addr w" and copied: "truthy jsep"
  shows "heap (snd (send_wrapper self message matcher jsep timeout authorize w)) message
           = heap w message"
proof -
  define full where "full = (if truthy jsep then next_addr w else message)"
  define w1 where "w1 = (if truthy jsep then snd (alloc (AList.update ''jsep'' jsep (heap w message)) w) else w)"
  define w2 where "w2 = (if authorize then setitem full ''admin_secret'' (PStr (admin_secret self)) w1 else w1)"
  define t where "t = fst (transport_send full w2)"
  define g where "g = get t (function_matcher matcher) timeout (snd (transport_send full w2))"
  have sw: "send_wrapper self message matcher jsep timeout authorize w =
      (fst g, case fst g of Some (Inr r) \<Rightarrow> done_transaction t (snd g) | _ \<Rightarrow> snd g)"
    unfolding send_wrapper_unfold Let_def g_def t_def w2_def w1_def full_def ..
  have other: "message \<noteq> full"
    using allocated copied by (simp add: full_def)
  have "heap (snd (send_wrapper self message matcher jsep timeout authorize w)) message
          = heap (snd g) message"
    unfolding sw by (simp add: done_transaction_fields split: option.splits sum.splits)
  also have "\<dots> = heap (snd (transport_send full w2)) message"
    by (simp add: g_def get_fields)
  also have "\<dots> = heap w2 message"
    using other by (rule transport_send_heap_elsewhere)
  also have "\<dots> = heap w1 message"
    using other by (simp add: w2_def setitem_def)
  also have "\<dots> = heap w message"
    using allocated by (simp add: w1_def alloc_def)
  finally show ?thesis .
qed

lemma send_wrapper_trace:
  fixes self message matcher jsep timeout authorize w
  defines "with_jsep \<equiv> (if truthy jsep then AList.update ''jsep'' jsep (heap w message)
                           else heap w message)"
  defines "sent \<equiv> (if authorize then AList.update ''admin_secret'' (PStr (admin_secret self)) with_jsep
                      else with_jsep)"
  defines "t \<equiv> (case map_of sent ''transaction'' of Some t \<Rightarrow> t | None \<Rightarrow> PStr (uuids w (drawn w)))"
  defines "result \<equiv> send_wrapper self message matcher jsep timeout authorize w"
  shows "calls (snd result) =
           calls w @ [SendCall sent, GetCall t timeout] @
             (case fst result of Some (Inr r) \<Rightarrow> [DoneCall t] | _ \<Rightarrow> [])"
    and "(registry (snd result) t = None) = (\<exists>r. fst result = Some (Inr r))"
proof -
  define full where "full = (if truthy jsep then next_addr w else message)"
  define w1 where "w1 = (if truthy jsep then snd (alloc (AList.update ''jsep'' jsep (heap w message)) w) else w)"
  define w2 where "w2 = (if authorize then setitem full ''admin_secret'' (PStr (admin_secret self)) w1 else w1)"
  define w3 where "w3 = snd (transport_send full w2)"
  define g where "g = get (fst (transport_send full w2)) (function_matcher matcher) timeout w3"
  have sw: "result =
      (fst g, case fst g of Some (Inr r) \<Rightarrow> done_transaction (fst (transport_send full w2)) (snd g) | _ \<Rightarrow> snd g)"
    unfolding result_def send_wrapper_unfold Let_def g_def w3_def w2_def w1_def full_def ..
  have sent: "heap w2 full = sent"
    by (simp add: w2_def w1_def full_def sent_def with_jsep_def setitem_def alloc_def)
  have w2: "calls w2 = calls w" "uuids w2 = uuids w" "drawn w2 = drawn w"
    by (simp_all add: w2_def w1_def setitem_def alloc_def)
  have t: "fst (transport_send full w2) = t"
    by (simp add: transport_send_handle sent w2 t_def split: option.splits)
  have c3: "calls w3 = calls w @ [SendCall sent]"
    by (simp add: w3_def transport_send_fields sent w2)
  have cg: "calls (snd g) = calls w @ [SendCall sent, GetCall t timeout]"
    by (simp add: g_def get_fields c3 t)
  have rg: "registry (snd g) t \<noteq> None"
    using transport_send_registers [of full w2] by (simp add: g_def get_registered w3_def t)
  show "calls (snd result) =
           calls w @ [SendCall sent, GetCall t timeout] @
             (case fst result of Some (Inr r) \<Rightarrow> [DoneCall t] | _ \<Rightarrow> [])"
    unfolding sw t by (simp add: cg done_transaction_fields split: option.splits sum.splits)
  show "(registry (snd result) t = None) = (\<exists>r. fst result = Some (Inr r))"
    unfolding sw t using rg by (simp add: done_transaction_fields split: option.splits sum.splits)
qed

lemma send_wrapper_result:
  fixes self message matcher jsep timeout authorize w
  defines "full \<equiv> (if truthy jsep then next_addr w else message)"
  defines "w1 \<equiv> (if truthy jsep then snd (alloc (AList.update ''jsep'' jsep (heap w message)) w) else w)"
  defines "w2 \<equiv> (if authorize then setitem full ''admin_secret'' (PStr (admin_secret self)) w1 else w1)"
  shows "fst (send_wrapper self message matcher jsep timeout authorize w) =
           fst (get (fst (transport_send full w2)) (function_matcher matcher) timeout
                  (snd (transport_send full w2)))"
  unfolding send_wrapper_unfold Let_def w2_def w1_def full_def by simp

section \<open>Facts about get and ping\<close>

lemma get_returns:
  "fst (get t P timeout w) = Some (Inr r) \<Longrightarrow>
     P r \<and> (r \<in> set (buffer_of t w) \<or>
            (\<exists>a. (a, r) \<in> set (inbound w) \<and> map_of r ''transaction'' = Some t))"
  unfolding get_def by (drule await_match_returns) auto



lemma ping_trace:
  "calls (snd (ping self w)) =
     calls w @ [SendCall [(''janus'', PStr ''ping'')],
                GetCall (PStr (uuids w (drawn w))) (Some 15)] @
       (case fst (ping self w) of Some (Inr r) \<Rightarrow> [DoneCall (PStr (uuids w (drawn w)))] | _ \<Rightarrow> [])"
  unfolding ping_def alloc_def Let_def prod.case
  by (simp add: send_wrapper_trace default_jsep_def default_timeout_def
        split: option.splits sum.splits)

lemma ping_result:
  "fst (ping self w) = Some (Inr r) \<Longrightarrow>
     function_matcher [(''janus'', PStr ''pong'')] r \<and>
     map_of r ''transaction'' = Some (PStr (uuids w (drawn w))) \<and>
     (\<exists>a. (a, r) \<in> set (inbound w))"
proof -
  assume returned: "fst (ping self w) = Some (Inr r)"
  define w1 where "w1 = w\<lparr>heap := (heap w)(next_addr w := [(''janus'', PStr ''ping'')]),
                          next_addr := Suc (next_addr w)\<rparr>"
  define t where "t = fst (transport_send (next_addr w) w1)"
  define w3 where "w3 = snd (transport_send (next_addr w) w1)"
  have fresh: "map_of (heap w1 (next_addr w)) ''transaction'' = None"
    by (simp add: w1_def)
  have t: "t = PStr (uuids w (drawn w))"
    by (simp add: t_def transport_send_handle fresh) (simp add: w1_def)
  have empty: "buffer_of t w3 = []"
    unfolding t_def w3_def using fresh by (rule transport_send_fresh_buffer)
  have inbound: "inbound w3 = inbound w"
    by (simp add: w3_def transport_send_fields) (simp add: w1_def)
  have "fst (ping self w) = fst (get t (function_matcher [(''janus'', PStr ''pong'')]) (Some 15) w3)"
    unfolding ping_def alloc_def Let_def prod.case send_wrapper_result t_def w3_def w1_def
    by (simp add: default_jsep_def default_timeout_def)
  with returned have "fst (get t (function_matcher [(''janus'', PStr ''pong'')]) (Some 15) w3) = Some (Inr r)"
    by simp
  from get_returns [OF this]
  have "function_matcher [(''janus'', PStr ''pong'')] r \<and>
     map_of r ''transaction'' = Some t \<and> (\<exists>a. (a, r) \<in> set (inbound w))"
    by (auto simp add: empty inbound)
  then show ?thesis by (simp add: t)
qed

text \<open>The definitions to unfold when a call is run on an example world.\<close>

lemmas run_defs =
  ping_def send_wrapper_def example_client_def example_world_def setitem_def transport_send_def
  alloc_def default_jsep_def default_timeout_def function_matcher_def done_transaction_def
  uuid4_hex_def get_def buffer_of_def give_up_def in_time_def dispatch_def offer_def Let_def

section \<open>The claims\<close>

text \<open>
  Claim C1 says that \<^verbatim>\<open>send_wrapper\<close> calls the transaction's \<^verbatim>\<open>done()\<close> on every exit
  path. On the path where \<^verbatim>\<open>get\<close> fails with \<open>Timeout\<close> it does not: the exception
  leaves the method at line 91, \<^verbatim>\<open>done()\<close> is never called and the transaction stays in
  the registry.
\<close>

theorem send_wrapper_timeout_skips_done:
  "fst (send_wrapper example_client 0 [(''janus'', PStr ''success'')] (PDict []) (Some 15) True
          (example_world []))
     = Some (Inl Timeout) \<and>
   calls (snd (send_wrapper example_client 0 [(''janus'', PStr ''success'')] (PDict []) (Some 15) True
          (example_world [])))
     = [SendCall [(''janus'', PStr ''loops_info''), (''admin_secret'', PStr ''janusoverlord'')],
        GetCall (PStr ''t1'') (Some 15)] \<and>
   registry (snd (send_wrapper example_client 0 [(''janus'', PStr ''success'')] (PDict []) (Some 15) True
          (example_world []))) (PStr ''t1'')
     = Some []"
  by (simp add: run_defs)

text \<open>
  Claim C2, as amended. \<^verbatim>\<open>send_wrapper\<close> hands the transport the caller's message with
  the key \<^verbatim>\<open>jsep\<close> set when \<^verbatim>\<open>jsep\<close> is truthy and the key \<^verbatim>\<open>admin_secret\<close> set when
  \<^verbatim>\<open>authorize\<close> is true. Whenever \<^verbatim>\<open>jsep\<close> is truthy, what it hands over is a new dict
  and the caller's dict is after the call what it was before, whatever \<^verbatim>\<open>authorize\<close>
  is.
\<close>

theorem send_wrapper_leaves_message_when_copied:
  "(message < next_addr w \<and> truthy jsep \<longrightarrow>
      heap (snd (send_wrapper self message matcher jsep timeout authorize w)) message
        = heap w message) \<and>
   (\<exists>rest. calls (snd (send_wrapper self message matcher jsep timeout authorize w)) =
      calls w @
      SendCall
        (let with_jsep = (if truthy jsep then AList.update ''jsep'' jsep (heap w message)
                          else heap w message)
         in if authorize then AList.update ''admin_secret'' (PStr (admin_secret self)) with_jsep
            else with_jsep) # rest)"
proof (intro conjI impI)
  assume "message < next_addr w \<and> truthy jsep"
  then show "heap (snd (send_wrapper self message matcher jsep timeout authorize w)) message
        = heap w message"
    by (intro send_wrapper_frame) simp_all
next
  show "\<exists>rest. calls (snd (send_wrapper self message matcher jsep timeout authorize w)) =
      calls w @
      SendCall
        (let with_jsep = (if truthy jsep then AList.update ''jsep'' jsep (heap w message)
                          else heap w message)
         in if authorize then AList.update ''admin_secret'' (PStr (admin_secret self)) with_jsep
            else with_jsep) # rest"
    by (simp add: send_wrapper_trace Let_def)
qed

theorem send_wrapper_leaves_message_when_copied_witness:
  "(0::nat) < next_addr (example_world [(1, [(''janus'', PStr ''success''), (''transaction'', PStr ''t1'')])]) \<and>
   truthy (PDict [(''type'', PStr ''offer'')]) \<and>
   heap (example_world [(1, [(''janus'', PStr ''success''), (''transaction'', PStr ''t1'')])]) 0 = [(''janus'', PStr ''loops_info'')] \<and>
   heap (snd (send_wrapper example_client 0 [(''janus'', PStr ''success'')]
                (PDict [(''type'', PStr ''offer'')]) (Some 15) True
                (example_world [(1, [(''janus'', PStr ''success''), (''transaction'', PStr ''t1'')])]))) 0
     = [(''janus'', PStr ''loops_info'')] \<and>
   heap (snd (send_wrapper example_client 0 [(''janus'', PStr ''success'')]
                (PDict [(''type'', PStr ''offer'')]) (Some 15) False
                (example_world [(1, [(''janus'', PStr ''success''), (''transaction'', PStr ''t1'')])]))) 0
     = [(''janus'', PStr ''loops_info'')] \<and>
   calls (snd (send_wrapper example_client 0 [(''janus'', PStr ''success'')]
                (PDict [(''type'', PStr ''offer'')]) (Some 15) True
                (example_world [(1, [(''janus'', PStr ''success''), (''transaction'', PStr ''t1'')])])))
     = [SendCall [(''janus'', PStr ''loops_info''), (''jsep'', PDict [(''type'', PStr ''offer'')]),
                  (''admin_secret'', PStr ''janusoverlord'')],
        GetCall (PStr ''t1'') (Some 15), DoneCall (PStr ''t1'')]"
proof -
  let ?w = "(example_world [(1, [(''janus'', PStr ''success''), (''transaction'', PStr ''t1'')])])"
  have pre: "(0::nat) < next_addr ?w \<and> truthy (PDict [(''type'', PStr ''offer'')])"
    by (simp add: example_world_def)
  have before: "heap ?w 0 = [(''janus'', PStr ''loops_info'')]"
    by (simp add: example_world_def)
  have trace: "calls (snd (send_wrapper example_client 0 [(''janus'', PStr ''success'')]
                (PDict [(''type'', PStr ''offer'')]) (Some 15) True ?w))
     = [SendCall [(''janus'', PStr ''loops_info''), (''jsep'', PDict [(''type'', PStr ''offer'')]),
                  (''admin_secret'', PStr ''janusoverlord'')],
        GetCall (PStr ''t1'') (Some 15), DoneCall (PStr ''t1'')]"
    by (simp add: run_defs)
  show ?thesis
    using pre before trace
      send_wrapper_leaves_message_when_copied
        [where message = 0 and w = ?w and jsep = "PDict [(''type'', PStr ''offer'')]"
           and authorize = True and self = example_client
           and matcher = "[(''janus'', PStr ''success'')]" and timeout = "Some 15"]
      send_wrapper_leaves_message_when_copied
        [where message = 0 and w = ?w and jsep = "PDict [(''type'', PStr ''offer'')]"
           and authorize = False and self = example_client
           and matcher = "[(''janus'', PStr ''success'')]" and timeout = "Some 15"]
    by simp
qed

text \<open>
  Claim C2 as stated fails: with \<^verbatim>\<open>jsep\<close> empty, \<^verbatim>\<open>full_message\<close> is the caller's own
  dict (line 81). With \<^verbatim>\<open>authorize\<close> true (both are the defaults) line 86 stores the
  admin secret in it, and the transport, handed that dict at line 89, assigns the
  transaction id into it. With \<^verbatim>\<open>authorize\<close> false the caller's dict still comes back
  with the transaction id.
\<close>

theorem send_wrapper_writes_into_message_counterexample:
  "fst (send_wrapper example_client 0 [(''janus'', PStr ''success'')] (PDict []) (Some 15) True
          (example_world [(1, [(''janus'', PStr ''success''), (''transaction'', PStr ''t1'')])]))
     = Some (Inr [(''janus'', PStr ''success''), (''transaction'', PStr ''t1'')]) \<and>
   heap (example_world [(1, [(''janus'', PStr ''success''), (''transaction'', PStr ''t1'')])]) 0
     = [(''janus'', PStr ''loops_info'')] \<and>
   heap (snd (send_wrapper example_client 0 [(''janus'', PStr ''success'')] (PDict []) (Some 15) True
          (example_world [(1, [(''janus'', PStr ''success''), (''transaction'', PStr ''t1'')])]))) 0
     = [(''janus'', PStr ''loops_info''), (''admin_secret'', PStr ''janusoverlord''),
        (''transaction'', PStr ''t1'')] \<and>
   heap (snd (send_wrapper example_client 0 [(''janus'', PStr ''success'')] (PDict []) (Some 15) False
          (example_world [(1, [(''janus'', PStr ''success''), (''transaction'', PStr ''t1'')])]))) 0
     = [(''janus'', PStr ''loops_info''), (''transaction'', PStr ''t1'')] \<and>
   heap (snd (send_wrapper example_client 0 [(''janus'', PStr ''success'')] (PDict []) (Some 15) True
          (example_world [(1, [(''janus'', PStr ''success''), (''transaction'', PStr ''t1'')])]))) 0
     \<noteq> heap (example_world [(1, [(''janus'', PStr ''success''), (''transaction'', PStr ''t1'')])]) 0"
  by (simp add: run_defs)

text \<open>
  Claim C3. For every inbound message \<open>m\<close>, the matcher that \<^verbatim>\<open>send_wrapper\<close> builds for
  \<^verbatim>\<open>get\<close> accepts \<open>m\<close> if and only if \<open>m\<close> is a structural superset of the caller's
  matcher pattern or of the error pattern
  \<^verbatim>\<open>{"janus": "error", "error": {"code": None, "reason": None}}\<close>; so whatever
  \<^verbatim>\<open>send_wrapper\<close> returns has the success shape or the error shape.
\<close>

theorem get_time_matcher_accepts_pattern_or_error:
  "(function_matcher matcher m \<longleftrightarrow>
      is_subset m matcher \<or>
      is_subset m [(''janus'', PStr ''error''),
                   (''error'', PDict [(''code'', PNone), (''reason'', PNone)])]) \<and>
   (fst (send_wrapper self message matcher jsep timeout authorize w) = Some (Inr r) \<longrightarrow>
      is_subset r matcher \<or>
      is_subset r [(''janus'', PStr ''error''),
                   (''error'', PDict [(''code'', PNone), (''reason'', PNone)])])"
proof (intro conjI impI)
  show "function_matcher matcher m \<longleftrightarrow>
      is_subset m matcher \<or>
      is_subset m [(''janus'', PStr ''error''),
                   (''error'', PDict [(''code'', PNone), (''reason'', PNone)])]"
    by (simp only: function_matcher_def)
next
  assume "fst (send_wrapper self message matcher jsep timeout authorize w) = Some (Inr r)"
  then have "function_matcher matcher r"
    unfolding send_wrapper_result by (blast dest: get_returns)
  then show "is_subset r matcher \<or>
      is_subset r [(''janus'', PStr ''error''),
                   (''error'', PDict [(''code'', PNone), (''reason'', PNone)])]"
    by (simp only: function_matcher_def)
qed

theorem get_time_matcher_accepts_pattern_or_error_witness:
  "function_matcher [(''janus'', PStr ''success'')]
     [(''janus'', PStr ''error''), (''transaction'', PStr ''t1''),
      (''error'', PDict [(''code'', PInt 403), (''reason'', PStr ''Unauthorized'')])] \<and>
   \<not> function_matcher [(''janus'', PStr ''success'')]
     [(''janus'', PStr ''event''), (''transaction'', PStr ''t1'')] \<and>
   fst (send_wrapper example_client 0 [(''janus'', PStr ''success'')] (PDict []) (Some 15) True
          (example_world
             [(1, [(''janus'', PStr ''ack''), (''transaction'', PStr ''t1'')]),
              (2, [(''janus'', PStr ''success''), (''transaction'', PStr ''t1'')])]))
     = Some (Inr [(''janus'', PStr ''success''), (''transaction'', PStr ''t1'')]) \<and>
   is_subset [(''janus'', PStr ''success''), (''transaction'', PStr ''t1'')]
     [(''janus'', PStr ''success'')]"
proof -
  have run: "fst (send_wrapper example_client 0 [(''janus'', PStr ''success'')] (PDict []) (Some 15) True
          (example_world
             [(1, [(''janus'', PStr ''ack''), (''transaction'', PStr ''t1'')]),
              (2, [(''janus'', PStr ''success''), (''transaction'', PStr ''t1'')])]))
     = Some (Inr [(''janus'', PStr ''success''), (''transaction'', PStr ''t1'')])"
    by (simp add: run_defs)
  show ?thesis
    using run get_time_matcher_accepts_pattern_or_error
      [where matcher = "[(''janus'', PStr ''success'')]"
         and self = example_client and message = 0 and jsep = "PDict []"
         and timeout = "Some 15" and authorize = True
         and w = "example_world
             [(1, [(''janus'', PStr ''ack''), (''transaction'', PStr ''t1'')]),
              (2, [(''janus'', PStr ''success''), (''transaction'', PStr ''t1'')])]"
         and r = "[(''janus'', PStr ''success''), (''transaction'', PStr ''t1'')]"]
    by (simp add: function_matcher_def)
qed

text \<open>
  Claim C4. Every call of \<^verbatim>\<open>add_token\<close>, \<^verbatim>\<open>allow_token\<close>, \<^verbatim>\<open>disallow_token\<close>,
  \<^verbatim>\<open>list_tokens\<close> or \<^verbatim>\<open>remove_token\<close> raises \<^verbatim>\<open>AttributeError\<close> and returns no result,
  because each looks up \<^verbatim>\<open>self.send\<close> and the client has no attribute of that name
  (only \<^verbatim>\<open>send_wrapper\<close>); nothing is sent and the world is left as it was.
\<close>

theorem token_methods_raise_AttributeError:
  "add_token md self token plugins invoke w = (Some (Inl (AttributeError ''send'')), w) \<and>
   allow_token self tok plugins' invoke w = (Some (Inl (AttributeError ''send'')), w) \<and>
   disallow_token self tok plugins' invoke w = (Some (Inl (AttributeError ''send'')), w) \<and>
   list_tokens self invoke w = (Some (Inl (AttributeError ''send'')), w) \<and>
   remove_token self tok invoke w = (Some (Inl (AttributeError ''send'')), w)"
proof -
  have missing: "getattr_self ''send'' = Inl (AttributeError ''send'')"
    by (simp add: getattr_self_def instance_attributes_def class_attributes_def
          object_attributes_def)
  have raises: "\<And>payload. self_send invoke payload w = (Some (Inl (AttributeError ''send'')), w)"
    by (simp add: self_send_def missing)
  show ?thesis
    by (simp add: add_token_def allow_token_def disallow_token_def list_tokens_def
          remove_token_def raises)
qed

theorem token_methods_raise_AttributeError_witness:
  "add_token (fst (import_admin_monitor (example_world []))) example_client None None
       (\<lambda>name payload w. (Some (Inr (PDict payload)), w)) (example_world [])
     = (Some (Inl (AttributeError ''send'')), example_world []) \<and>
   list_tokens example_client (\<lambda>name payload w. (Some (Inr (PDict payload)), w)) (example_world [])
     = (Some (Inl (AttributeError ''send'')), example_world [])"
  using token_methods_raise_AttributeError
    [of "fst (import_admin_monitor (example_world []))" example_client None None
        "\<lambda>name payload w. (Some (Inr (PDict payload)), w)" "example_world []"]
  by simp



text \<open>
  Claim C6. The empty pattern is an identity for the structural subset test: for every
  message \<open>m\<close>, \<^verbatim>\<open>is_subset(m, {})\<close> is true.
\<close>

theorem empty_pattern_matches_every_message: "is_subset m []"
  by simp

theorem empty_pattern_matches_every_message_witness:
  "is_subset [(''janus'', PStr ''pong''), (''transaction'', PStr ''t1'')] []"
  by (rule empty_pattern_matches_every_message)

text \<open>
  Claim C7. The structural subset test is a subset test, not equality: it is false
  whenever a key of the pattern is absent from the message, and keys of the message
  that the pattern does not have never cause a mismatch: the outcome is the same for
  any two messages that agree on the pattern's keys.
\<close>

theorem is_subset_is_a_subset_test:
  "(key \<in> fst ` set p \<and> key \<notin> fst ` set m \<longrightarrow> \<not> is_subset m p) \<and>
   ((\<forall>k \<in> fst ` set q. map_of m' k = map_of m k) \<longrightarrow> is_subset m' q = is_subset m q)"
proof (intro conjI impI)
  assume "key \<in> fst ` set p \<and> key \<notin> fst ` set m"
  then have "key \<in> fst ` set p" and "map_of m key = None"
    by (simp_all add: map_of_eq_None_iff)
  then show "\<not> is_subset m p" by (rule is_subset_missing_key)
next
  assume "\<forall>k \<in> fst ` set q. map_of m' k = map_of m k"
  then show "is_subset m' q = is_subset m q"
    by (intro is_subset_depends_on_pattern_keys) blast
qed

theorem is_subset_is_a_subset_test_witness:
  "''transaction'' \<in> fst ` set [(''janus'', PStr ''pong''), (''transaction'', PNone)] \<and>
   ''transaction'' \<notin> fst ` set [(''janus'', PStr ''pong'')] \<and>
   \<not> is_subset [(''janus'', PStr ''pong'')] [(''janus'', PStr ''pong''), (''transaction'', PNone)] \<and>
   is_subset [(''janus'', PStr ''pong'')] [(''janus'', PStr ''pong'')] \<and>
   is_subset [(''session_id'', PInt 7), (''janus'', PStr ''pong''), (''transaction'', PStr ''t1'')]
     [(''janus'', PStr ''pong'')]"
  using is_subset_is_a_subset_test
    [where key = "''transaction''"
       and p = "[(''janus'', PStr ''pong''), (''transaction'', PNone)]"
       and m = "[(''janus'', PStr ''pong'')]"
       and q = "[(''janus'', PStr ''pong'')]"
       and m' = "[(''session_id'', PInt 7), (''janus'', PStr ''pong''), (''transaction'', PStr ''t1'')]"]
  by simp

text \<open>
  Claim C8, as amended. \<^verbatim>\<open>ping()\<close> hands the transport exactly the message
  \<^verbatim>\<open>{"janus": "ping"}\<close>, without the admin secret, and waits on that message's
  transaction with the default timeout; what it returns is an inbound message of that
  transaction that the pattern \<^verbatim>\<open>{"janus": "pong"}\<close> or the error pattern accepts.
\<close>

theorem ping_returns_pong_or_error:
  "(\<exists>rest. calls (snd (ping self w)) =
       calls w @ SendCall [(''janus'', PStr ''ping'')] #
                 GetCall (PStr (uuids w (drawn w))) (Some 15) # rest) \<and>
   (fst (ping self w) = Some (Inr r) \<longrightarrow>
      (is_subset r [(''janus'', PStr ''pong'')] \<or>
       is_subset r [(''janus'', PStr ''error''),
                    (''error'', PDict [(''code'', PNone), (''reason'', PNone)])]) \<and>
      map_of r ''transaction'' = Some (PStr (uuids w (drawn w))) \<and>
      (\<exists>a. (a, r) \<in> set (inbound w)))"
proof (intro conjI impI)
  show "\<exists>rest. calls (snd (ping self w)) =
       calls w @ SendCall [(''janus'', PStr ''ping'')] #
                 GetCall (PStr (uuids w (drawn w))) (Some 15) # rest"
    by (simp add: ping_trace)
next
  assume "fst (ping self w) = Some (Inr r)"
  then have "function_matcher [(''janus'', PStr ''pong'')] r"
    and "map_of r ''transaction'' = Some (PStr (uuids w (drawn w)))"
    and "\<exists>a. (a, r) \<in> set (inbound w)"
    by (simp_all add: ping_result)
  then show "is_subset r [(''janus'', PStr ''pong'')] \<or>
       is_subset r [(''janus'', PStr ''error''),
                    (''error'', PDict [(''code'', PNone), (''reason'', PNone)])]"
    and "map_of r ''transaction'' = Some (PStr (uuids w (drawn w)))"
    and "\<exists>a. (a, r) \<in> set (inbound w)"
    by (simp_all only: function_matcher_def)
qed

theorem ping_returns_pong_or_error_witness:
  "fst (ping example_client
          (example_world [(1, [(''janus'', PStr ''pong''), (''transaction'', PStr ''t1'')])]))
     = Some (Inr [(''janus'', PStr ''pong''), (''transaction'', PStr ''t1'')]) \<and>
   is_subset [(''janus'', PStr ''pong''), (''transaction'', PStr ''t1'')] [(''janus'', PStr ''pong'')] \<and>
   calls (snd (ping example_client
          (example_world [(1, [(''janus'', PStr ''pong''), (''transaction'', PStr ''t1'')])])))
     = [SendCall [(''janus'', PStr ''ping'')], GetCall (PStr ''t1'') (Some 15), DoneCall (PStr ''t1'')]"
proof -
  let ?w = "example_world [(1, [(''janus'', PStr ''pong''), (''transaction'', PStr ''t1'')])]"
  have run: "fst (ping example_client ?w)
     = Some (Inr [(''janus'', PStr ''pong''), (''transaction'', PStr ''t1'')])"
    by (simp add: run_defs)
  have trace: "calls (snd (ping example_client ?w))
     = [SendCall [(''janus'', PStr ''ping'')], GetCall (PStr ''t1'') (Some 15), DoneCall (PStr ''t1'')]"
    by (simp add: run_defs)
  show ?thesis
    using run trace ping_returns_pong_or_error
      [where self = example_client and w = ?w
         and r = "[(''janus'', PStr ''pong''), (''transaction'', PStr ''t1'')]"]
    by simp
qed

text \<open>
  Claim C8 as stated fails: when the server answers the ping with an error message,
  \<^verbatim>\<open>ping()\<close> returns that message, which the pattern \<^verbatim>\<open>{"janus": "pong"}\<close> does not accept.
\<close>

theorem ping_returns_error_message_counterexample:
  "fst (ping example_client
          (example_world
             [(1, [(''janus'', PStr ''error''), (''transaction'', PStr ''t1''),
                   (''error'', PDict [(''code'', PInt 403), (''reason'', PStr ''Unauthorized'')])])]))
     = Some (Inr [(''janus'', PStr ''error''), (''transaction'', PStr ''t1''),
                  (''error'', PDict [(''code'', PInt 403), (''reason'', PStr ''Unauthorized'')])]) \<and>
   \<not> is_subset [(''janus'', PStr ''error''), (''transaction'', PStr ''t1''),
                 (''error'', PDict [(''code'', PInt 403), (''reason'', PStr ''Unauthorized'')])]
        [(''janus'', PStr ''pong'')]"
  by (simp add: run_defs)

text \<open>
  Claim C9. For every two invocations of \<^verbatim>\<open>add_token\<close> in one process with the token
  argument omitted, the token placed in the two payloads is the same string: the value
  \<^verbatim>\<open>uuid.uuid4().hex\<close> had when the module was imported. A call draws no new uuid.
\<close>

theorem add_token_default_token_is_drawn_once:
  "map_of (add_token_payload (fst (import_admin_monitor w0)) None plugins1) ''token''
     = Some (PStr (uuids w0 (drawn w0))) \<and>
   map_of (add_token_payload (fst (import_admin_monitor w0)) None plugins2) ''token''
     = map_of (add_token_payload (fst (import_admin_monitor w0)) None plugins1) ''token'' \<and>
   drawn (snd (add_token (fst (import_admin_monitor w0)) self None plugins1 invoke w)) = drawn w"
proof -
  have token: "\<And>plugins. map_of (add_token_payload (fst (import_admin_monitor w0)) None plugins) ''token''
      = Some (PStr (uuids w0 (drawn w0)))"
    by (simp add: add_token_payload_def import_admin_monitor_def uuid4_hex_def Let_def
          update_conv')
  have "getattr_self ''send'' = Inl (AttributeError ''send'')"
    by (simp add: getattr_self_def instance_attributes_def class_attributes_def
          object_attributes_def)
  then have "snd (add_token (fst (import_admin_monitor w0)) self None plugins1 invoke w) = w"
    by (simp add: add_token_def self_send_def)
  then show ?thesis by (simp add: token)
qed

theorem add_token_default_token_is_drawn_once_witness:
  "map_of (add_token_payload (fst (import_admin_monitor (example_world []))) None None) ''token''
     = Some (PStr ''t1'') \<and>
   map_of (add_token_payload (fst (import_admin_monitor (example_world [])))
       None (Some (PList [PStr ''janus.plugin.videoroom'']))) ''token''
     = Some (PStr ''t1'')"
  using add_token_default_token_is_drawn_once
    [of "example_world []" None "Some (PList [PStr ''janus.plugin.videoroom''])"]
  by (simp add: example_world_def)

text \<open>
  Claim C10. For every client, \<^verbatim>\<open>str(c)\<close> never returns normally: \<^verbatim>\<open>__str__\<close> formats
  \<^verbatim>\<open>self\<close> inside its own f-string, which calls \<^verbatim>\<open>__str__\<close> of the same object again, so
  whatever room the interpreter's recursion limit leaves, the call ends in
  \<^verbatim>\<open>RecursionError\<close> and never in a string.
\<close>

theorem client_str_raises_RecursionError:
  "client_str frames w self = Inl RecursionError"
  by (induction frames) (simp_all add: Let_def)

theorem client_str_raises_RecursionError_witness:
  "client_str 1000 (example_world []) example_client = Inl RecursionError"
  by (rule client_str_raises_RecursionError)

end
